theory Spec2Isabelle
  imports Main
begin

section \<open>Local IP agent extension: the pending-change store\<close>

text \<open>
  A shallow embedding of \<^verbatim>\<open>neutron/agent/l2/extensions/local_ip.py\<close>
  (class \<^verbatim>\<open>LocalIPAgentExtension\<close>). The extension object and the calls it
  issues to its collaborators (logger, callback registries, RPC connection, pull API) are
  one explicit state that every method takes and returns. A Python exception is the
  left summand of the method's result.
\<close>

subsection \<open>Data model\<close>

type_synonym port_id = string
type_synonym lip_id = string
type_synonym rpc_context = string
type_synonym connection = string
type_synonym driver_type = string

text \<open>
  A local IP association object; the source reads the attributes
  \<^verbatim>\<open>fixed_port_id\<close>, \<^verbatim>\<open>local_ip_id\<close> and \<^verbatim>\<open>local_ip\<close>.
\<close>

record assoc =
  fixed_port_id :: port_id
  local_ip_id :: lip_id
  local_ip :: string

text \<open>
  Modelled from the spec: the constants \<^verbatim>\<open>resources.LOCAL_IP_ASSOCIATION\<close> and
  \<^verbatim>\<open>resources.PORT\<close> are imported from a module that is not part of the source
  excerpt. The spec speaks of a resource-type tag that either is "the recognized
  association type" or is not; every other tag is \<open>OtherResource\<close>.
\<close>

datatype resource_type = LOCAL_IP_ASSOCIATION | PORT | OtherResource string

text \<open>
  Modelled from the spec: the constants \<^verbatim>\<open>events.CREATED\<close>,
  \<^verbatim>\<open>events.UPDATED\<close> and \<^verbatim>\<open>events.DELETED\<close> are imported from a
  module that is not part of the source excerpt. The spec lists them as three different
  event kinds and speaks of an "unrecognized kind" for anything else.
\<close>

datatype event_type = CREATED | UPDATED | DELETED | OtherEvent string

text \<open>
  Modelled from the spec: \<^verbatim>\<open>ovs_constants.EXTENSION_DRIVER_TYPE\<close> is imported
  from a module that is not part of the source excerpt; the spec calls it the compatible
  dataplane driver and the source's own error message names it OVS.
\<close>

definition EXTENSION_DRIVER_TYPE :: driver_type where
  "EXTENSION_DRIVER_TYPE = ''ovs''"

definition SUPPORTED_RESOURCE_TYPES :: "resource_type list" where
  "SUPPORTED_RESOURCE_TYPES = [LOCAL_IP_ASSOCIATION]"

text \<open>
  \<^verbatim>\<open>self.local_ip_updates\<close> is a dict with the two keys \<^verbatim>\<open>'added'\<close> and
  \<^verbatim>\<open>'deleted'\<close>, each a \<^verbatim>\<open>collections.defaultdict(dict)\<close> from port id to a
  dict from local IP id to association.
\<close>

type_synonym lip_dict = "lip_id \<rightharpoonup> assoc"
type_synonym port_table = "port_id \<rightharpoonup> lip_dict"

record updates =
  added :: port_table
  deleted :: port_table

text \<open>The dict returned by \<^verbatim>\<open>_pop_local_ip_updates_for_port\<close>.\<close>

record port_updates =
  port_added :: lip_dict
  port_deleted :: lip_dict

datatype error = SystemExit int | AttributeError string | KeyError string

text \<open>
  Calls to the collaborators, in the order they are issued: the logger, the pull API
  (\<^verbatim>\<open>bulk_pull\<close>), the consumer registry (\<^verbatim>\<open>registry.register\<close>), the RPC
  connection (\<^verbatim>\<open>create_consumer\<close>) and the callback registry
  (\<^verbatim>\<open>lib_registry.publish\<close> of \<^verbatim>\<open>resources.PORT\<close>,
  \<^verbatim>\<open>AFTER_UPDATE\<close>, with the payload's \<^verbatim>\<open>resource_id\<close>).
\<close>

datatype effect =
    LogError driver_type
  | LogWarning resource_type
  | LogInfo "assoc list" event_type
  | RegistryRegister resource_type
  | CreateConsumer connection resource_type
  | BulkPull resource_type
  | Publish rpc_context port_id

text \<open>
  The extension object. An attribute that \<^verbatim>\<open>initialize\<close> has not assigned yet is
  absent: \<open>resource_rpc\<close> is \<open>False\<close> and \<open>local_ip_updates\<close> is \<open>None\<close>, and reading
  it raises \<open>AttributeError\<close>. \<open>trace\<close> holds the calls issued so far, oldest first.
\<close>

record extension =
  resource_rpc :: bool
  local_ip_updates :: "updates option"
  trace :: "effect list"

type_synonym 'a outcome = "(error + 'a) \<times> extension"

definition emit :: "effect \<Rightarrow> extension \<Rightarrow> extension" where
  "emit e self = self\<lparr>trace := trace self @ [e]\<rparr>"

subsection \<open>Dictionary operations\<close>

text \<open>
  \<^verbatim>\<open>tbl[port_id]\<close> on a \<^verbatim>\<open>defaultdict(dict)\<close>: a missing key is inserted with
  a fresh empty dict, which is returned.
\<close>

definition dd_getitem :: "port_table \<Rightarrow> port_id \<Rightarrow> lip_dict \<times> port_table" where
  "dd_getitem tbl port_id =
     (case tbl port_id of
        None \<Rightarrow> (Map.empty, tbl(port_id \<mapsto> Map.empty))
      | Some d \<Rightarrow> (d, tbl))"

text \<open>\<^verbatim>\<open>tbl[port_id][lip_id] = assoc\<close>; the inner dict is updated in place.\<close>

definition set_assoc :: "port_table \<Rightarrow> port_id \<Rightarrow> lip_id \<Rightarrow> assoc \<Rightarrow> port_table" where
  "set_assoc tbl port_id lip_id a =
     (case dd_getitem tbl port_id of (d, tbl') \<Rightarrow> tbl'(port_id \<mapsto> d(lip_id \<mapsto> a)))"

text \<open>\<^verbatim>\<open>tbl[port_id].pop(lip_id, None)\<close>, the popped value dropped.\<close>

definition pop_assoc :: "port_table \<Rightarrow> port_id \<Rightarrow> lip_id \<Rightarrow> port_table" where
  "pop_assoc tbl port_id lip_id =
     (case dd_getitem tbl port_id of (d, tbl') \<Rightarrow> tbl'(port_id \<mapsto> d(lip_id := None)))"

text \<open>\<^verbatim>\<open>d.pop(key, default)\<close>: the value and the dict without the key.\<close>

definition dict_pop :: "'k \<Rightarrow> 'v \<Rightarrow> ('k \<rightharpoonup> 'v) \<Rightarrow> 'v \<times> ('k \<rightharpoonup> 'v)" where
  "dict_pop k dflt m = (case m k of None \<Rightarrow> (dflt, m) | Some v \<Rightarrow> (v, m(k := None)))"

text \<open>\<^verbatim>\<open>d.pop(key, None)\<close>: the default \<^verbatim>\<open>None\<close> is the absent value.\<close>

definition dict_pop_none :: "'k \<Rightarrow> ('k \<rightharpoonup> 'v) \<Rightarrow> 'v option \<times> ('k \<rightharpoonup> 'v)" where
  "dict_pop_none k m = (case m k of None \<Rightarrow> (None, m) | Some v \<Rightarrow> (Some v, m(k := None)))"

subsection \<open>Methods of the extension\<close>

text \<open>
  \<^verbatim>\<open>_pull_all_local_ip_associations\<close>. \<open>assoc_list\<close> is what the external
  \<^verbatim>\<open>bulk_pull\<close> returns. \<open>pull_loop\<close> is the \<^verbatim>\<open>for\<close> loop.
\<close>

fun pull_loop :: "assoc list \<Rightarrow> extension \<Rightarrow> unit outcome" where
  "pull_loop [] self = (Inr (), self)"
| "pull_loop (a # rest) self =
     (case local_ip_updates self of
        None \<Rightarrow> (Inl (AttributeError ''local_ip_updates''), self)
      | Some u \<Rightarrow>
          pull_loop rest
            (self\<lparr>local_ip_updates :=
               Some (u\<lparr>added := set_assoc (added u) (fixed_port_id a) (local_ip_id a) a\<rparr>)\<rparr>))"

definition pull_all_local_ip_associations :: "assoc list \<Rightarrow> extension \<Rightarrow> unit outcome" where
  "pull_all_local_ip_associations assoc_list self =
     (if \<not> resource_rpc self then (Inl (AttributeError ''resource_rpc''), self)
      else pull_loop assoc_list (emit (BulkPull LOCAL_IP_ASSOCIATION) self))"

text \<open>\<^verbatim>\<open>_register_rpc_consumers\<close>: one registration and one consumer per type.\<close>

fun register_loop :: "connection \<Rightarrow> resource_type list \<Rightarrow> extension \<Rightarrow> extension" where
  "register_loop conn [] self = self"
| "register_loop conn (rt # rest) self =
     register_loop conn rest (emit (CreateConsumer conn rt) (emit (RegistryRegister rt) self))"

definition register_rpc_consumers :: "connection \<Rightarrow> extension \<Rightarrow> extension" where
  "register_rpc_consumers conn self = register_loop conn SUPPORTED_RESOURCE_TYPES self"

text \<open>\<^verbatim>\<open>initialize\<close>; \<^verbatim>\<open>sys.exit(1)\<close> raises \<open>SystemExit 1\<close>.\<close>

definition initialize :: "assoc list \<Rightarrow> connection \<Rightarrow> driver_type \<Rightarrow> extension \<Rightarrow> unit outcome" where
  "initialize assoc_list conn drv self =
     (if drv \<noteq> EXTENSION_DRIVER_TYPE then (Inl (SystemExit 1), emit (LogError drv) self)
      else
        let self1 = self\<lparr>resource_rpc := True\<rparr>;
            self2 = register_rpc_consumers conn self1;
            self3 = self2\<lparr>local_ip_updates := Some \<lparr>added = Map.empty, deleted = Map.empty\<rparr>\<rparr>
        in pull_all_local_ip_associations assoc_list self3)"

text \<open>\<^verbatim>\<open>_notify_port_updated\<close>.\<close>

definition notify_port_updated :: "rpc_context \<Rightarrow> port_id \<Rightarrow> extension \<Rightarrow> extension" where
  "notify_port_updated ctx port_id self = emit (Publish ctx port_id) self"

text \<open>
  \<^verbatim>\<open>_handle_notification\<close>. \<open>notification_body\<close> is one iteration of the
  \<^verbatim>\<open>for\<close> loop and \<open>notification_loop\<close> the loop; an exception ends it.
\<close>

definition notification_body :: "rpc_context \<Rightarrow> event_type \<Rightarrow> assoc \<Rightarrow> extension \<Rightarrow> unit outcome" where
  "notification_body ctx ev a self =
     (let port_id = fixed_port_id a; lip_id = local_ip_id a in
      if ev \<in> {CREATED, UPDATED} then
        (case local_ip_updates self of
           None \<Rightarrow> (Inl (AttributeError ''local_ip_updates''), self)
         | Some u \<Rightarrow>
             (Inr (), notify_port_updated ctx port_id
                (self\<lparr>local_ip_updates :=
                   Some (u\<lparr>added := set_assoc (added u) port_id lip_id a\<rparr>)\<rparr>)))
      else if ev = DELETED then
        (case local_ip_updates self of
           None \<Rightarrow> (Inl (AttributeError ''local_ip_updates''), self)
         | Some u \<Rightarrow>
             (Inr (), notify_port_updated ctx port_id
                (self\<lparr>local_ip_updates :=
                   Some (u\<lparr>deleted := set_assoc (deleted u) port_id lip_id a,
                            added := pop_assoc (added u) port_id lip_id\<rparr>)\<rparr>)))
      else (Inr (), notify_port_updated ctx port_id self))"

fun notification_loop :: "rpc_context \<Rightarrow> event_type \<Rightarrow> assoc list \<Rightarrow> extension \<Rightarrow> unit outcome" where
  "notification_loop ctx ev [] self = (Inr (), self)"
| "notification_loop ctx ev (a # rest) self =
     (case notification_body ctx ev a self of
        (Inl e, self') \<Rightarrow> (Inl e, self')
      | (Inr _, self') \<Rightarrow> notification_loop ctx ev rest self')"

definition handle_notification ::
    "rpc_context \<Rightarrow> resource_type \<Rightarrow> assoc list \<Rightarrow> event_type \<Rightarrow> extension \<Rightarrow> unit outcome" where
  "handle_notification ctx rt local_ip_associations ev self =
     (if rt \<noteq> LOCAL_IP_ASSOCIATION then (Inr (), emit (LogWarning rt) self)
      else notification_loop ctx ev local_ip_associations
             (emit (LogInfo local_ip_associations ev) self))"

text \<open>\<^verbatim>\<open>_pop_local_ip_updates_for_port\<close>.\<close>

definition pop_local_ip_updates_for_port :: "port_id \<Rightarrow> extension \<Rightarrow> port_updates outcome" where
  "pop_local_ip_updates_for_port port_id self =
     (case local_ip_updates self of
        None \<Rightarrow> (Inl (AttributeError ''local_ip_updates''), self)
      | Some u \<Rightarrow>
          (case dict_pop port_id Map.empty (added u) of (a, added') \<Rightarrow>
           case dict_pop port_id Map.empty (deleted u) of (d, deleted') \<Rightarrow>
             (Inr \<lparr>port_added = a, port_deleted = d\<rparr>,
              self\<lparr>local_ip_updates := Some \<lparr>added = added', deleted = deleted'\<rparr>\<rparr>)))"

text \<open>
  \<^verbatim>\<open>delete_port\<close>. \<open>port\<close> is the dict of port details; \<^verbatim>\<open>port['port_id']\<close>
  raises \<open>KeyError\<close> when the key is missing, after the attribute has been read.
\<close>

definition delete_port :: "rpc_context \<Rightarrow> (string \<rightharpoonup> port_id) \<Rightarrow> extension \<Rightarrow> unit outcome" where
  "delete_port ctx port self =
     (case local_ip_updates self of
        None \<Rightarrow> (Inl (AttributeError ''local_ip_updates''), self)
      | Some u \<Rightarrow>
          (case port ''port_id'' of
             None \<Rightarrow> (Inl (KeyError ''port_id''), self)
           | Some pid \<Rightarrow>
               (Inr (), self\<lparr>local_ip_updates :=
                  Some \<lparr>added = snd (dict_pop_none pid (added u)),
                        deleted = snd (dict_pop_none pid (deleted u))\<rparr>\<rparr>)))"

subsection \<open>Notions used to state the properties\<close>

text \<open>
  The pending changes of a port in one table: a port key that is absent stands for the
  empty dict, as \<^verbatim>\<open>pop(port_id, {})\<close> reads it.
\<close>

definition pending :: "port_table \<Rightarrow> port_id \<Rightarrow> lip_dict" where
  "pending tbl p = (case tbl p of None \<Rightarrow> Map.empty | Some d \<Rightarrow> d)"

definition in_added :: "extension \<Rightarrow> port_id \<Rightarrow> lip_id \<Rightarrow> bool" where
  "in_added self p l =
     (case local_ip_updates self of None \<Rightarrow> False | Some u \<Rightarrow> pending (added u) p l \<noteq> None)"

definition in_deleted :: "extension \<Rightarrow> port_id \<Rightarrow> lip_id \<Rightarrow> bool" where
  "in_deleted self p l =
     (case local_ip_updates self of None \<Rightarrow> False | Some u \<Rightarrow> pending (deleted u) p l \<noteq> None)"

text \<open>The key under which an association is stored: its port and its local IP id.\<close>

definition assoc_key :: "assoc \<Rightarrow> port_id \<times> lip_id" where
  "assoc_key a = (fixed_port_id a, local_ip_id a)"

text \<open>
  A sequence of association notifications, each an event kind with its batch, handled one
  after the other; an exception ends the run.
\<close>

fun deliver :: "rpc_context \<Rightarrow> (event_type \<times> assoc list) list \<Rightarrow> extension \<Rightarrow> unit outcome" where
  "deliver ctx [] self = (Inr (), self)"
| "deliver ctx ((ev, batch) # rest) self =
     (case handle_notification ctx LOCAL_IP_ASSOCIATION batch ev self of
        (Inl e, self') \<Rightarrow> (Inl e, self')
      | (Inr _, self') \<Rightarrow> deliver ctx rest self')"

text \<open>The event kinds that reached a record: those of the notifications with a non-empty batch.\<close>

definition effective_events :: "(event_type \<times> assoc list) list \<Rightarrow> event_type list" where
  "effective_events ns = map fst (filter (\<lambda>n. snd n \<noteq> []) ns)"

text \<open>Every notification is CREATED, UPDATED or DELETED and every record is for port \<open>p\<close>, id \<open>l\<close>.\<close>

definition for_pair :: "port_id \<Rightarrow> lip_id \<Rightarrow> (event_type \<times> assoc list) list \<Rightarrow> bool" where
  "for_pair p l ns =
     list_all (\<lambda>n. fst n \<in> {CREATED, UPDATED, DELETED}
                  \<and> list_all (\<lambda>a. fixed_port_id a = p \<and> local_ip_id a = l) (snd n)) ns"

text \<open>Some call \<open>b\<close> is issued after the first call \<open>a\<close> of a trace.\<close>

fun occurs_before :: "effect \<Rightarrow> effect \<Rightarrow> effect list \<Rightarrow> bool" where
  "occurs_before a b [] = False"
| "occurs_before a b (x # xs) = (if x = a then b \<in> set xs else occurs_before a b xs)"

text \<open>Concrete values for the worked instances.\<close>

definition assoc1 :: assoc where
  "assoc1 = \<lparr>fixed_port_id = ''port-a'', local_ip_id = ''lip-1'', local_ip = ''10.0.0.1''\<rparr>"

definition assoc2 :: assoc where
  "assoc2 = \<lparr>fixed_port_id = ''port-b'', local_ip_id = ''lip-2'', local_ip = ''10.0.0.2''\<rparr>"

definition assoc3 :: assoc where
  "assoc3 = \<lparr>fixed_port_id = ''port-a'', local_ip_id = ''lip-3'', local_ip = ''10.0.0.3''\<rparr>"

definition new_extension :: extension where
  "new_extension = \<lparr>resource_rpc = False, local_ip_updates = None, trace = []\<rparr>"

definition empty_store :: updates where
  "empty_store = \<lparr>added = Map.empty, deleted = Map.empty\<rparr>"

definition ready_extension :: extension where
  "ready_extension = \<lparr>resource_rpc = True, local_ip_updates = Some empty_store, trace = []\<rparr>"

definition busy_store :: updates where
  "busy_store =
     \<lparr>added = Map.empty(''port-a'' \<mapsto> Map.empty(''lip-1'' \<mapsto> assoc1),
                        ''port-b'' \<mapsto> Map.empty(''lip-2'' \<mapsto> assoc2)),
      deleted = Map.empty(''port-a'' \<mapsto> Map.empty(''lip-3'' \<mapsto> assoc3))\<rparr>"

definition busy_extension :: extension where
  "busy_extension = \<lparr>resource_rpc = True, local_ip_updates = Some busy_store, trace = []\<rparr>"

section \<open>Properties\<close>

subsection \<open>Dictionary lemmas\<close>

lemma pending_set_assoc:
  "pending (set_assoc tbl p l a) q = (if q = p then (pending tbl p)(l \<mapsto> a) else pending tbl q)"
  by (simp add: pending_def set_assoc_def dd_getitem_def split: option.splits)

lemma pending_pop_assoc:
  "pending (pop_assoc tbl p l) q = (if q = p then (pending tbl p)(l := None) else pending tbl q)"
  by (simp add: pending_def pop_assoc_def dd_getitem_def split: option.splits)

lemma dom_set_assoc: "dom (set_assoc tbl p l a) = insert p (dom tbl)"
  by (auto simp: set_assoc_def dd_getitem_def split: option.splits if_splits)

lemma set_assoc_twice: "set_assoc (set_assoc tbl p l a) p l a = set_assoc tbl p l a"
  by (simp add: set_assoc_def dd_getitem_def split: option.splits)

lemma pop_assoc_twice: "pop_assoc (pop_assoc tbl p l) p l = pop_assoc tbl p l"
  by (simp add: pop_assoc_def dd_getitem_def split: option.splits)

lemma dict_pop_empty: "dict_pop p Map.empty tbl = (pending tbl p, tbl(p := None))"
  by (auto simp: dict_pop_def pending_def split: option.splits)

lemma snd_dict_pop_none: "snd (dict_pop_none p tbl) = tbl(p := None)"
  by (auto simp: dict_pop_none_def split: option.splits)

lemma pop_local_ip_updates_for_port_Some:
  "local_ip_updates self = Some u \<Longrightarrow>
     pop_local_ip_updates_for_port p self =
       (Inr \<lparr>port_added = pending (added u) p, port_deleted = pending (deleted u) p\<rparr>,
        self\<lparr>local_ip_updates :=
               Some \<lparr>added = (added u)(p := None), deleted = (deleted u)(p := None)\<rparr>\<rparr>)"
  by (simp add: pop_local_ip_updates_for_port_def dict_pop_empty)

lemma in_added_emit: "in_added (emit e self) = in_added self"
  by (simp add: in_added_def emit_def fun_eq_iff)

lemma in_deleted_emit: "in_deleted (emit e self) = in_deleted self"
  by (simp add: in_deleted_def emit_def fun_eq_iff)

subsection \<open>Draining a port\<close>

text \<open>
  C3. On an extension whose store exists, \<^verbatim>\<open>_pop_local_ip_updates_for_port\<close>
  never raises: it returns the whole added and deleted dicts of the port (the empty dict
  for a port without an entry) and leaves the port without a key in both tables. When the
  port has nothing pending in either table both returned dicts are empty, and draining the
  same port again at once returns two empty dicts and changes nothing.
\<close>

theorem drain_port:
  assumes "local_ip_updates self = Some u"
  shows "pop_local_ip_updates_for_port p self =
       (Inr \<lparr>port_added = pending (added u) p, port_deleted = pending (deleted u) p\<rparr>,
        self\<lparr>local_ip_updates :=
               Some \<lparr>added = (added u)(p := None), deleted = (deleted u)(p := None)\<rparr>\<rparr>)
     \<and> (pending (added u) p = Map.empty \<and> pending (deleted u) p = Map.empty \<longrightarrow>
          fst (pop_local_ip_updates_for_port p self) =
            Inr \<lparr>port_added = Map.empty, port_deleted = Map.empty\<rparr>)
     \<and> pop_local_ip_updates_for_port p (snd (pop_local_ip_updates_for_port p self)) =
         (Inr \<lparr>port_added = Map.empty, port_deleted = Map.empty\<rparr>,
          snd (pop_local_ip_updates_for_port p self))"
  using assms by (simp add: pop_local_ip_updates_for_port_Some) (simp add: pending_def)

text \<open>
  C3, instances: port a holds one added and one deleted association, port c holds nothing.
\<close>

theorem drain_port_witness:
  "local_ip_updates busy_extension = Some busy_store
   \<and> fst (pop_local_ip_updates_for_port ''port-a'' busy_extension) =
       Inr \<lparr>port_added = Map.empty(''lip-1'' \<mapsto> assoc1),
            port_deleted = Map.empty(''lip-3'' \<mapsto> assoc3)\<rparr>
   \<and> \<not> in_added (snd (pop_local_ip_updates_for_port ''port-a'' busy_extension)) ''port-a'' ''lip-1''
   \<and> pending (added busy_store) ''port-c'' = Map.empty
   \<and> pending (deleted busy_store) ''port-c'' = Map.empty
   \<and> fst (pop_local_ip_updates_for_port ''port-c'' busy_extension) =
       Inr \<lparr>port_added = Map.empty, port_deleted = Map.empty\<rparr>"
  using drain_port [of busy_extension busy_store "''port-a''"]
    drain_port [of busy_extension busy_store "''port-c''"]
  by (simp add: busy_extension_def busy_store_def pending_def in_added_def)

text \<open>
  C9. For two different ports, draining the first leaves the second port's entries in both
  tables as they were, and what the drain returns does not depend on the second port's
  entries: replacing them by anything gives the same result.
\<close>

theorem drain_other_port_untouched:
  assumes "local_ip_updates self = Some u" and "pa \<noteq> pb"
  shows "(\<exists>u'. local_ip_updates (snd (pop_local_ip_updates_for_port pa self)) = Some u'
            \<and> added u' pb = added u pb \<and> deleted u' pb = deleted u pb)
     \<and> fst (pop_local_ip_updates_for_port pa
              (self\<lparr>local_ip_updates :=
                      Some (u\<lparr>added := (added u)(pb := x), deleted := (deleted u)(pb := y)\<rparr>)\<rparr>))
         = fst (pop_local_ip_updates_for_port pa self)"
proof -
  have kept: "((added u)(pa := None)) pb = added u pb" "((deleted u)(pa := None)) pb = deleted u pb"
    using assms(2) by simp_all
  have same: "pending ((added u)(pb := x)) pa = pending (added u) pa"
    "pending ((deleted u)(pb := y)) pa = pending (deleted u) pa"
    using assms(2) by (simp_all add: pending_def)
  show ?thesis
    using assms(1) kept same by (simp add: pop_local_ip_updates_for_port_Some)
qed

text \<open>C9, instance: draining port a keeps the association pending for port b.\<close>

theorem drain_other_port_untouched_witness:
  "local_ip_updates busy_extension = Some busy_store \<and> ''port-a'' \<noteq> ''port-b''
   \<and> in_added (snd (pop_local_ip_updates_for_port ''port-a'' busy_extension)) ''port-b'' ''lip-2''
   \<and> fst (pop_local_ip_updates_for_port ''port-a''
             (busy_extension\<lparr>local_ip_updates :=
                Some (busy_store\<lparr>added := (added busy_store)(''port-b'' := None),
                                 deleted := (deleted busy_store)(''port-b'' := None)\<rparr>)\<rparr>))
       = fst (pop_local_ip_updates_for_port ''port-a'' busy_extension)"
  using drain_other_port_untouched [of busy_extension busy_store "''port-a''" "''port-b''" None None]
  by (auto simp: busy_extension_def busy_store_def in_added_def pending_def)

subsection \<open>Discarding a port\<close>

text \<open>
  C5. Whatever the store holds (so after any earlier sequence of insertions and
  deletions), \<^verbatim>\<open>delete_port\<close> for a port dict with a \<^verbatim>\<open>port_id\<close> never
  raises, also when the port has no key in the tables; it leaves the port without a key
  in both tables, and a drain of that port right after returns two empty dicts.
\<close>

theorem discard_port:
  assumes "local_ip_updates self = Some u" and "port ''port_id'' = Some p"
  shows "delete_port ctx port self =
       (Inr (), self\<lparr>local_ip_updates :=
                      Some \<lparr>added = (added u)(p := None), deleted = (deleted u)(p := None)\<rparr>\<rparr>)
     \<and> pop_local_ip_updates_for_port p (snd (delete_port ctx port self)) =
         (Inr \<lparr>port_added = Map.empty, port_deleted = Map.empty\<rparr>,
          snd (delete_port ctx port self))"
proof -
  have d: "delete_port ctx port self =
       (Inr (), self\<lparr>local_ip_updates :=
                      Some \<lparr>added = (added u)(p := None), deleted = (deleted u)(p := None)\<rparr>\<rparr>)"
    using assms by (simp add: delete_port_def snd_dict_pop_none)
  show ?thesis
    unfolding d by (simp add: pop_local_ip_updates_for_port_Some pending_def)
qed

text \<open>C5, instances: a port with pending changes and a port the tables do not know.\<close>

theorem discard_port_witness:
  "local_ip_updates busy_extension = Some busy_store
   \<and> (Map.empty(''port_id'' \<mapsto> ''port-a'')) ''port_id'' = Some ''port-a''
   \<and> fst (delete_port ''ctx'' (Map.empty(''port_id'' \<mapsto> ''port-a'')) busy_extension) = Inr ()
   \<and> \<not> in_added (snd (delete_port ''ctx'' (Map.empty(''port_id'' \<mapsto> ''port-a'')) busy_extension))
          ''port-a'' ''lip-1''
   \<and> \<not> in_deleted (snd (delete_port ''ctx'' (Map.empty(''port_id'' \<mapsto> ''port-a'')) busy_extension))
          ''port-a'' ''lip-3''
   \<and> fst (delete_port ''ctx'' (Map.empty(''port_id'' \<mapsto> ''port-c'')) busy_extension) = Inr ()"
  using discard_port [of busy_extension busy_store "Map.empty(''port_id'' \<mapsto> ''port-a'')" "''port-a''" "''ctx''"]
    discard_port [of busy_extension busy_store "Map.empty(''port_id'' \<mapsto> ''port-c'')" "''port-c''" "''ctx''"]
  by (simp add: busy_extension_def in_added_def in_deleted_def pending_def)

subsection \<open>A DELETED record\<close>

lemma handle_deleted_single:
  "local_ip_updates self = Some u \<Longrightarrow>
   handle_notification ctx LOCAL_IP_ASSOCIATION [r] DELETED self =
     (Inr (), self\<lparr>local_ip_updates :=
                 Some (u\<lparr>deleted := set_assoc (deleted u) (fixed_port_id r) (local_ip_id r) r,
                          added := pop_assoc (added u) (fixed_port_id r) (local_ip_id r)\<rparr>),
               trace := trace self @ [LogInfo [r] DELETED, Publish ctx (fixed_port_id r)]\<rparr>)"
  by (simp add: handle_notification_def notification_body_def notify_port_updated_def emit_def Let_def)

text \<open>
  C4. On an extension whose store exists, a DELETED notification with one record stores
  the record in the deleted dict of the record's port under its local IP id and removes
  that id from the port's added dict; when the id was not in the added dict the pending
  added entries are all unchanged. Handling the same notification a second time leaves
  the store as it was after the first.
\<close>

theorem mark_deleted:
  assumes "local_ip_updates self = Some u"
  shows "\<exists>self1 u1.
      handle_notification ctx LOCAL_IP_ASSOCIATION [r] DELETED self = (Inr (), self1)
    \<and> local_ip_updates self1 = Some u1
    \<and> pending (deleted u1) (fixed_port_id r) =
        (pending (deleted u) (fixed_port_id r))(local_ip_id r \<mapsto> r)
    \<and> pending (added u1) (fixed_port_id r) =
        (pending (added u) (fixed_port_id r))(local_ip_id r := None)
    \<and> (pending (added u) (fixed_port_id r) (local_ip_id r) = None \<longrightarrow>
         pending (added u1) = pending (added u))
    \<and> local_ip_updates (snd (handle_notification ctx LOCAL_IP_ASSOCIATION [r] DELETED self1)) =
        Some u1"
proof -
  let ?p = "fixed_port_id r" and ?l = "local_ip_id r"
  let ?u1 = "u\<lparr>deleted := set_assoc (deleted u) ?p ?l r, added := pop_assoc (added u) ?p ?l\<rparr>"
  let ?s1 = "self\<lparr>local_ip_updates := Some ?u1,
                   trace := trace self @ [LogInfo [r] DELETED, Publish ctx ?p]\<rparr>"
  have run: "handle_notification ctx LOCAL_IP_ASSOCIATION [r] DELETED self = (Inr (), ?s1)"
    using assms by (rule handle_deleted_single)
  have st: "local_ip_updates ?s1 = Some ?u1" by simp
  have del: "pending (deleted ?u1) ?p = (pending (deleted u) ?p)(?l \<mapsto> r)"
    by (simp add: pending_set_assoc)
  have add: "pending (added ?u1) ?p = (pending (added u) ?p)(?l := None)"
    by (simp add: pending_pop_assoc)
  have noop: "pending (added u) ?p ?l = None \<longrightarrow> pending (added ?u1) = pending (added u)"
    by (auto simp: pending_pop_assoc fun_eq_iff)
  have again: "local_ip_updates (snd (handle_notification ctx LOCAL_IP_ASSOCIATION [r] DELETED ?s1)) =
      Some ?u1"
    by (simp add: handle_deleted_single [OF st] set_assoc_twice pop_assoc_twice)
  show ?thesis
    by (intro exI [of _ ?s1] exI [of _ ?u1] conjI run st del add noop again)
qed

text \<open>
  C4, instances: the first association is pending as added, the third is not.
\<close>

theorem mark_deleted_witness:
  "local_ip_updates busy_extension = Some busy_store
   \<and> fst (handle_notification ''ctx'' LOCAL_IP_ASSOCIATION [assoc1] DELETED busy_extension) = Inr ()
   \<and> in_deleted (snd (handle_notification ''ctx'' LOCAL_IP_ASSOCIATION [assoc1] DELETED busy_extension))
        ''port-a'' ''lip-1''
   \<and> \<not> in_added (snd (handle_notification ''ctx'' LOCAL_IP_ASSOCIATION [assoc1] DELETED busy_extension))
        ''port-a'' ''lip-1''
   \<and> pending (added busy_store) (fixed_port_id assoc1) (local_ip_id assoc1) \<noteq> None
   \<and> pending (added busy_store) (fixed_port_id assoc3) (local_ip_id assoc3) = None
   \<and> in_deleted (snd (handle_notification ''ctx'' LOCAL_IP_ASSOCIATION [assoc3] DELETED busy_extension))
        ''port-a'' ''lip-3''"
proof -
  have h: "local_ip_updates busy_extension = Some busy_store"
    by (simp add: busy_extension_def)
  note r1 = handle_deleted_single [OF h, of "''ctx''" assoc1]
  note r3 = handle_deleted_single [OF h, of "''ctx''" assoc3]
  show ?thesis
    using mark_deleted [OF h, of "''ctx''" assoc1] mark_deleted [OF h, of "''ctx''" assoc3]
    by (simp add: h r1 r3 in_added_def in_deleted_def pending_set_assoc pending_pop_assoc)
      (simp add: busy_store_def assoc1_def assoc2_def assoc3_def pending_def)
qed

subsection \<open>Notifications of another resource type\<close>

text \<open>
  C7. A notification whose resource type is not the local IP association type is
  dropped whole: the method returns without an exception, the only call it issues is the
  warning (no port update is published for any record of the batch), and the store is
  left as it was. This holds for every batch and event kind, also before the store exists.
\<close>

theorem other_resource_type_discarded:
  assumes "rt \<noteq> LOCAL_IP_ASSOCIATION"
  shows "handle_notification ctx rt batch ev self =
           (Inr (), self\<lparr>trace := trace self @ [LogWarning rt]\<rparr>)
     \<and> local_ip_updates (snd (handle_notification ctx rt batch ev self)) = local_ip_updates self"
  using assms by (simp add: handle_notification_def emit_def)

text \<open>
  C7, instances: a port notification on a busy store, another type on a fresh object.
\<close>

theorem other_resource_type_discarded_witness:
  "PORT \<noteq> LOCAL_IP_ASSOCIATION
   \<and> handle_notification ''ctx'' PORT [assoc1, assoc2] DELETED busy_extension =
       (Inr (), busy_extension\<lparr>trace := [LogWarning PORT]\<rparr>)
   \<and> handle_notification ''ctx'' (OtherResource ''Subnet'') [assoc1] CREATED new_extension =
       (Inr (), new_extension\<lparr>trace := [LogWarning (OtherResource ''Subnet'')]\<rparr>)"
  using other_resource_type_discarded [of PORT "''ctx''" "[assoc1, assoc2]" DELETED busy_extension]
    other_resource_type_discarded [of "OtherResource ''Subnet''" "''ctx''" "[assoc1]" CREATED new_extension]
  by (simp add: busy_extension_def new_extension_def)

subsection \<open>Unrecognized event kinds\<close>

lemma notification_body_other:
  "ev \<notin> {CREATED, UPDATED, DELETED} \<Longrightarrow>
     notification_body ctx ev a self = (Inr (), emit (Publish ctx (fixed_port_id a)) self)"
  by (simp add: notification_body_def notify_port_updated_def)

lemma notification_loop_other:
  "ev \<notin> {CREATED, UPDATED, DELETED} \<Longrightarrow>
     notification_loop ctx ev batch self =
       (Inr (), self\<lparr>trace := trace self @ map (\<lambda>a. Publish ctx (fixed_port_id a)) batch\<rparr>)"
proof (induction batch arbitrary: self)
  case Nil
  show ?case by simp
next
  case (Cons a batch)
  show ?case
    using Cons.prems by (simp add: notification_body_other Cons.IH emit_def)
qed

text \<open>
  C8. For an association notification whose event kind is none of CREATED, UPDATED and
  DELETED, the store is left as it was, and after the info log exactly one port update is
  published per record of the batch, for that record's port, in batch order.
\<close>

theorem unknown_event_kind_signals:
  assumes "ev \<notin> {CREATED, UPDATED, DELETED}"
  shows "handle_notification ctx LOCAL_IP_ASSOCIATION batch ev self =
           (Inr (), self\<lparr>trace := trace self @
              LogInfo batch ev # map (\<lambda>a. Publish ctx (fixed_port_id a)) batch\<rparr>)
     \<and> local_ip_updates (snd (handle_notification ctx LOCAL_IP_ASSOCIATION batch ev self)) =
         local_ip_updates self"
  using assms by (simp add: handle_notification_def notification_loop_other emit_def)

text \<open>
  C8, instance: two records with an unknown kind give two published port updates.
\<close>

theorem unknown_event_kind_signals_witness:
  "OtherEvent ''moved'' \<notin> {CREATED, UPDATED, DELETED}
   \<and> handle_notification ''ctx'' LOCAL_IP_ASSOCIATION [assoc1, assoc2] (OtherEvent ''moved'') busy_extension =
       (Inr (), busy_extension\<lparr>trace :=
          [LogInfo [assoc1, assoc2] (OtherEvent ''moved''),
           Publish ''ctx'' ''port-a'', Publish ''ctx'' ''port-b'']\<rparr>)"
  using unknown_event_kind_signals [of "OtherEvent ''moved''" "''ctx''" "[assoc1, assoc2]" busy_extension]
  by (simp add: busy_extension_def assoc1_def assoc2_def)

subsection \<open>Initialization with the wrong driver\<close>

text \<open>
  C10. With a driver type other than the OVS one, \<^verbatim>\<open>initialize\<close> raises
  \<open>SystemExit 1\<close> after logging the error and does nothing else: no registration, no
  consumer, no bulk pull is issued, and neither the store nor the pull API attribute is
  assigned.
\<close>

theorem initialize_wrong_driver:
  assumes "drv \<noteq> EXTENSION_DRIVER_TYPE"
  shows "initialize assoc_list conn drv self =
           (Inl (SystemExit 1), self\<lparr>trace := trace self @ [LogError drv]\<rparr>)
     \<and> local_ip_updates (snd (initialize assoc_list conn drv self)) = local_ip_updates self
     \<and> resource_rpc (snd (initialize assoc_list conn drv self)) = resource_rpc self"
  using assms by (simp add: initialize_def emit_def)

text \<open>
  C10, instance: the Linux bridge driver on a fresh extension object.
\<close>

theorem initialize_wrong_driver_witness:
  "''linuxbridge'' \<noteq> EXTENSION_DRIVER_TYPE
   \<and> initialize [assoc1] ''conn'' ''linuxbridge'' new_extension =
       (Inl (SystemExit 1), new_extension\<lparr>trace := [LogError ''linuxbridge'']\<rparr>)
   \<and> local_ip_updates (snd (initialize [assoc1] ''conn'' ''linuxbridge'' new_extension)) = None"
  using initialize_wrong_driver [of "''linuxbridge''" "[assoc1]" "''conn''" new_extension]
  by (simp add: EXTENSION_DRIVER_TYPE_def new_extension_def)

subsection \<open>Bootstrap seeding\<close>

lemma pull_loop_store:
  "local_ip_updates self = Some u \<Longrightarrow>
   \<exists>u'. pull_loop xs self = (Inr (), self\<lparr>local_ip_updates := Some u'\<rparr>)
      \<and> deleted u' = deleted u
      \<and> dom (added u') = dom (added u) \<union> fixed_port_id ` set xs
      \<and> (distinct (map assoc_key xs) \<longrightarrow>
           (\<forall>p l a. pending (added u') p l = Some a \<longleftrightarrow>
              (a \<in> set xs \<and> assoc_key a = (p, l)) \<or>
              ((p, l) \<notin> assoc_key ` set xs \<and> pending (added u) p l = Some a)))"
proof (induction xs arbitrary: self u)
  case Nil
  then show ?case by (cases self) auto
next
  case (Cons x xs)
  let ?u1 = "u\<lparr>added := set_assoc (added u) (fixed_port_id x) (local_ip_id x) x\<rparr>"
  let ?s1 = "self\<lparr>local_ip_updates := Some ?u1\<rparr>"
  have s1: "local_ip_updates ?s1 = Some ?u1" by simp
  from Cons.IH[OF s1] obtain u' where
    run: "pull_loop xs ?s1 = (Inr (), ?s1\<lparr>local_ip_updates := Some u'\<rparr>)"
    and del: "deleted u' = deleted ?u1"
    and dm: "dom (added u') = dom (added ?u1) \<union> fixed_port_id ` set xs"
    and ent: "distinct (map assoc_key xs) \<longrightarrow>
           (\<forall>p l a. pending (added u') p l = Some a \<longleftrightarrow>
              (a \<in> set xs \<and> assoc_key a = (p, l)) \<or>
              ((p, l) \<notin> assoc_key ` set xs \<and> pending (added ?u1) p l = Some a))"
    by blast
  have "pull_loop (x # xs) self = (Inr (), self\<lparr>local_ip_updates := Some u'\<rparr>)"
    using Cons.prems run by simp
  moreover have "deleted u' = deleted u" using del by simp
  moreover have "dom (added u') = dom (added u) \<union> fixed_port_id ` set (x # xs)"
    using dm by (auto simp: dom_set_assoc)
  moreover have "distinct (map assoc_key (x # xs)) \<longrightarrow>
           (\<forall>p l a. pending (added u') p l = Some a \<longleftrightarrow>
              (a \<in> set (x # xs) \<and> assoc_key a = (p, l)) \<or>
              ((p, l) \<notin> assoc_key ` set (x # xs) \<and> pending (added u) p l = Some a))"
  proof (intro impI allI)
    fix p l a
    assume d: "distinct (map assoc_key (x # xs))"
    then have dx: "distinct (map assoc_key xs)" and nx: "assoc_key x \<notin> assoc_key ` set xs"
      by auto
    from ent dx have e: "pending (added u') p l = Some a \<longleftrightarrow>
              (a \<in> set xs \<and> assoc_key a = (p, l)) \<or>
              ((p, l) \<notin> assoc_key ` set xs \<and> pending (added ?u1) p l = Some a)"
      by blast
    show "pending (added u') p l = Some a \<longleftrightarrow>
              (a \<in> set (x # xs) \<and> assoc_key a = (p, l)) \<or>
              ((p, l) \<notin> assoc_key ` set (x # xs) \<and> pending (added u) p l = Some a)"
      unfolding e using nx
      by (auto simp: pending_set_assoc assoc_key_def split: if_splits)
  qed
  ultimately show ?case by blast
qed

text \<open>
  C6. Seeding the empty store from a bulk pull succeeds; the port keys of the added table
  are exactly the ports of the records (K keys when the records are spread over K ports)
  and the deleted table is empty. When the records are pairwise distinct as associations
  (no two share both port and local IP id), the added dict of a port holds under each id
  exactly the record of that port with that id, and nothing else.
\<close>

theorem bootstrap_seed:
  assumes "resource_rpc self"
    and "local_ip_updates self = Some \<lparr>added = Map.empty, deleted = Map.empty\<rparr>"
  shows "\<exists>self' u'.
      pull_all_local_ip_associations assoc_list self = (Inr (), self')
    \<and> local_ip_updates self' = Some u'
    \<and> dom (added u') = fixed_port_id ` set assoc_list
    \<and> card (dom (added u')) = card (fixed_port_id ` set assoc_list)
    \<and> (distinct (map assoc_key assoc_list) \<longrightarrow>
         (\<forall>p l a. pending (added u') p l = Some a \<longleftrightarrow>
            a \<in> set assoc_list \<and> fixed_port_id a = p \<and> local_ip_id a = l))
    \<and> deleted u' = Map.empty"
proof -
  let ?s = "emit (BulkPull LOCAL_IP_ASSOCIATION) self"
  have "local_ip_updates ?s = Some \<lparr>added = Map.empty, deleted = Map.empty\<rparr>"
    using assms(2) by (simp add: emit_def)
  from pull_loop_store [OF this, of assoc_list] obtain u' where
    run: "pull_loop assoc_list ?s = (Inr (), ?s\<lparr>local_ip_updates := Some u'\<rparr>)"
    and del: "deleted u' = Map.empty"
    and dm: "dom (added u') = fixed_port_id ` set assoc_list"
    and ent: "distinct (map assoc_key assoc_list) \<longrightarrow>
           (\<forall>p l a. pending (added u') p l = Some a \<longleftrightarrow>
              (a \<in> set assoc_list \<and> assoc_key a = (p, l)) \<or>
              ((p, l) \<notin> assoc_key ` set assoc_list \<and> pending Map.empty p l = Some a))"
    by auto
  have "pull_all_local_ip_associations assoc_list self =
      (Inr (), ?s\<lparr>local_ip_updates := Some u'\<rparr>)"
    using assms(1) run by (simp add: pull_all_local_ip_associations_def)
  moreover have "distinct (map assoc_key assoc_list) \<longrightarrow>
      (\<forall>p l a. pending (added u') p l = Some a \<longleftrightarrow>
          a \<in> set assoc_list \<and> fixed_port_id a = p \<and> local_ip_id a = l)"
    using ent by (auto simp: pending_def assoc_key_def)
  ultimately show ?thesis using del dm by auto
qed

text \<open>
  C6, instance: three associations over two ports.
\<close>

theorem bootstrap_seed_witness:
  "resource_rpc ready_extension
   \<and> local_ip_updates ready_extension = Some \<lparr>added = Map.empty, deleted = Map.empty\<rparr>
   \<and> distinct (map assoc_key [assoc1, assoc2, assoc3])
   \<and> fst (pull_all_local_ip_associations [assoc1, assoc2, assoc3] ready_extension) = Inr ()
   \<and> in_added (snd (pull_all_local_ip_associations [assoc1, assoc2, assoc3] ready_extension))
        ''port-a'' ''lip-3''
   \<and> \<not> in_added (snd (pull_all_local_ip_associations [assoc1, assoc2, assoc3] ready_extension))
        ''port-b'' ''lip-3''
   \<and> \<not> in_deleted (snd (pull_all_local_ip_associations [assoc1, assoc2, assoc3] ready_extension))
        ''port-a'' ''lip-3''"
proof -
  have h1: "resource_rpc ready_extension"
    and h2: "local_ip_updates ready_extension = Some \<lparr>added = Map.empty, deleted = Map.empty\<rparr>"
    by (simp_all add: ready_extension_def empty_store_def)
  have h3: "distinct (map assoc_key [assoc1, assoc2, assoc3])"
    by (simp add: assoc_key_def assoc1_def assoc2_def assoc3_def)
  from bootstrap_seed [OF h1 h2, of "[assoc1, assoc2, assoc3]"] h3 obtain s' u' where
    run: "pull_all_local_ip_associations [assoc1, assoc2, assoc3] ready_extension = (Inr (), s')"
    and st: "local_ip_updates s' = Some u'"
    and ent: "\<forall>p l a. pending (added u') p l = Some a \<longleftrightarrow>
          a \<in> set [assoc1, assoc2, assoc3] \<and> fixed_port_id a = p \<and> local_ip_id a = l"
    and del: "deleted u' = Map.empty"
    by blast
  have "pending (added u') ''port-a'' ''lip-3'' = Some assoc3"
    using ent by (simp add: assoc3_def)
  moreover have "pending (added u') ''port-b'' ''lip-3'' = None"
  proof (rule ccontr)
    assume "pending (added u') ''port-b'' ''lip-3'' \<noteq> None"
    then obtain a where "pending (added u') ''port-b'' ''lip-3'' = Some a"
      by auto
    with ent have "a \<in> set [assoc1, assoc2, assoc3]"
      and "fixed_port_id a = ''port-b''" and "local_ip_id a = ''lip-3''"
      by blast+
    then show False
      by (auto simp: assoc1_def assoc2_def assoc3_def)
  qed
  ultimately show ?thesis
    using h1 h2 h3 run st del by (simp add: in_added_def in_deleted_def pending_def)
qed

subsection \<open>Sequences of notifications for one association\<close>

lemma notification_body_pair:
  assumes "local_ip_updates self \<noteq> None" and "ev \<in> {CREATED, UPDATED, DELETED}"
  shows "\<exists>self1. notification_body ctx ev a self = (Inr (), self1)
     \<and> local_ip_updates self1 \<noteq> None
     \<and> in_added self1 (fixed_port_id a) (local_ip_id a) = (ev \<noteq> DELETED)
     \<and> in_deleted self1 (fixed_port_id a) (local_ip_id a) =
         (in_deleted self (fixed_port_id a) (local_ip_id a) \<or> ev = DELETED)"
  using assms
  by (auto simp: notification_body_def notify_port_updated_def emit_def in_added_def in_deleted_def
      pending_set_assoc pending_pop_assoc Let_def)

lemma notification_loop_pair:
  assumes "local_ip_updates self \<noteq> None" and "ev \<in> {CREATED, UPDATED, DELETED}"
    and "list_all (\<lambda>a. fixed_port_id a = p \<and> local_ip_id a = l) batch"
  shows "\<exists>self1. notification_loop ctx ev batch self = (Inr (), self1)
     \<and> local_ip_updates self1 \<noteq> None
     \<and> in_added self1 p l = (if batch = [] then in_added self p l else ev \<noteq> DELETED)
     \<and> in_deleted self1 p l = (in_deleted self p l \<or> (batch \<noteq> [] \<and> ev = DELETED))"
  using assms
proof (induction batch arbitrary: self)
  case Nil
  then show ?case by simp
next
  case (Cons a batch)
  from Cons.prems have pa: "fixed_port_id a = p" "local_ip_id a = l"
    and rest: "list_all (\<lambda>a. fixed_port_id a = p \<and> local_ip_id a = l) batch"
    by auto
  from notification_body_pair[OF Cons.prems(1,2), of ctx a] pa obtain s1 where
    b: "notification_body ctx ev a self = (Inr (), s1)"
    and s1: "local_ip_updates s1 \<noteq> None"
    and a1: "in_added s1 p l = (ev \<noteq> DELETED)"
    and d1: "in_deleted s1 p l = (in_deleted self p l \<or> ev = DELETED)"
    by auto
  from Cons.IH[OF s1 Cons.prems(2) rest] obtain s2 where
    r: "notification_loop ctx ev batch s1 = (Inr (), s2)"
    and s2: "local_ip_updates s2 \<noteq> None"
    and a2: "in_added s2 p l = (if batch = [] then in_added s1 p l else ev \<noteq> DELETED)"
    and d2: "in_deleted s2 p l = (in_deleted s1 p l \<or> (batch \<noteq> [] \<and> ev = DELETED))"
    by blast
  have "notification_loop ctx ev (a # batch) self = (Inr (), s2)"
    using b r by simp
  then show ?case using s2 a2 d2 a1 d1 by auto
qed

lemma handle_notification_pair:
  assumes "local_ip_updates self \<noteq> None" and "ev \<in> {CREATED, UPDATED, DELETED}"
    and "list_all (\<lambda>a. fixed_port_id a = p \<and> local_ip_id a = l) batch"
  shows "\<exists>self1. handle_notification ctx LOCAL_IP_ASSOCIATION batch ev self = (Inr (), self1)
     \<and> local_ip_updates self1 \<noteq> None
     \<and> in_added self1 p l = (if batch = [] then in_added self p l else ev \<noteq> DELETED)
     \<and> in_deleted self1 p l = (in_deleted self p l \<or> (batch \<noteq> [] \<and> ev = DELETED))"
proof -
  have "local_ip_updates (emit (LogInfo batch ev) self) \<noteq> None"
    using assms(1) by (simp add: emit_def)
  from notification_loop_pair[OF this assms(2,3), of ctx] obtain s1 where
    r: "notification_loop ctx ev batch (emit (LogInfo batch ev) self) = (Inr (), s1)"
    and s1: "local_ip_updates s1 \<noteq> None"
    and a1: "in_added s1 p l = (if batch = [] then in_added self p l else ev \<noteq> DELETED)"
    and d1: "in_deleted s1 p l = (in_deleted self p l \<or> (batch \<noteq> [] \<and> ev = DELETED))"
    unfolding in_added_emit in_deleted_emit by blast
  have "handle_notification ctx LOCAL_IP_ASSOCIATION batch ev self = (Inr (), s1)"
    using r by (simp add: handle_notification_def)
  then show ?thesis using s1 a1 d1 by blast
qed

text \<open>
  C1, as the code has it. For a sequence of CREATED, UPDATED and DELETED notifications
  whose records all belong to one port and one local IP id, handled on an existing store:
  every notification returns normally, and afterwards the id is in the port's added dict
  exactly when the latest event that reached a record was CREATED or UPDATED (when no
  record was handled, exactly when it was there before), and it is in the port's deleted
  dict exactly when it was there before or some DELETED event reached a record. So after a
  latest DELETED the id is in deleted only; a CREATED or UPDATED never removes it from
  deleted. The sequence is arbitrary, so this holds after each notification of a run.
\<close>

theorem single_pair_reduction:
  assumes "local_ip_updates self \<noteq> None" and "for_pair p l ns"
  shows "\<exists>self'. deliver ctx ns self = (Inr (), self')
     \<and> local_ip_updates self' \<noteq> None
     \<and> in_added self' p l =
         (if effective_events ns = [] then in_added self p l
          else last (effective_events ns) \<noteq> DELETED)
     \<and> in_deleted self' p l = (in_deleted self p l \<or> DELETED \<in> set (effective_events ns))"
  using assms
proof (induction ns arbitrary: self)
  case Nil
  then show ?case by (simp add: effective_events_def)
next
  case (Cons n ns)
  obtain ev batch where n: "n = (ev, batch)" by (cases n)
  from Cons.prems(2) n have ev: "ev \<in> {CREATED, UPDATED, DELETED}"
    and batch: "list_all (\<lambda>a. fixed_port_id a = p \<and> local_ip_id a = l) batch"
    and rest: "for_pair p l ns"
    by (auto simp: for_pair_def)
  from handle_notification_pair[OF Cons.prems(1) ev batch, of ctx] obtain s1 where
    h: "handle_notification ctx LOCAL_IP_ASSOCIATION batch ev self = (Inr (), s1)"
    and s1: "local_ip_updates s1 \<noteq> None"
    and a1: "in_added s1 p l = (if batch = [] then in_added self p l else ev \<noteq> DELETED)"
    and d1: "in_deleted s1 p l = (in_deleted self p l \<or> (batch \<noteq> [] \<and> ev = DELETED))"
    by blast
  from Cons.IH[OF s1 rest] obtain s2 where
    r: "deliver ctx ns s1 = (Inr (), s2)"
    and s2: "local_ip_updates s2 \<noteq> None"
    and a2: "in_added s2 p l =
         (if effective_events ns = [] then in_added s1 p l
          else last (effective_events ns) \<noteq> DELETED)"
    and d2: "in_deleted s2 p l = (in_deleted s1 p l \<or> DELETED \<in> set (effective_events ns))"
    by blast
  have "deliver ctx (n # ns) self = (Inr (), s2)"
    using h r n by simp
  moreover have "in_added s2 p l =
         (if effective_events (n # ns) = [] then in_added self p l
          else last (effective_events (n # ns)) \<noteq> DELETED)"
    using a2 a1 n by (simp add: effective_events_def)
  moreover have "in_deleted s2 p l = (in_deleted self p l \<or> DELETED \<in> set (effective_events (n # ns)))"
    using d2 d1 n by (auto simp: effective_events_def)
  ultimately show ?case using s2 by blast
qed

text \<open>
  C1, instance: created, updated, then deleted.
\<close>

theorem single_pair_reduction_witness:
  "local_ip_updates ready_extension \<noteq> None
   \<and> for_pair ''port-a'' ''lip-1'' [(CREATED, [assoc1]), (UPDATED, [assoc1]), (DELETED, [assoc1])]
   \<and> fst (deliver ''ctx'' [(CREATED, [assoc1]), (UPDATED, [assoc1]), (DELETED, [assoc1])] ready_extension) = Inr ()
   \<and> in_deleted (snd (deliver ''ctx'' [(CREATED, [assoc1]), (UPDATED, [assoc1]), (DELETED, [assoc1])] ready_extension))
        ''port-a'' ''lip-1''
   \<and> \<not> in_added (snd (deliver ''ctx'' [(CREATED, [assoc1]), (UPDATED, [assoc1]), (DELETED, [assoc1])] ready_extension))
        ''port-a'' ''lip-1''"
proof -
  have h1: "local_ip_updates ready_extension \<noteq> None"
    by (simp add: ready_extension_def)
  have h2: "for_pair ''port-a'' ''lip-1'' [(CREATED, [assoc1]), (UPDATED, [assoc1]), (DELETED, [assoc1])]"
    by (simp add: for_pair_def assoc1_def)
  have ev: "effective_events [(CREATED, [assoc1]), (UPDATED, [assoc1]), (DELETED, [assoc1])] =
      [CREATED, UPDATED, DELETED]"
    by (simp add: effective_events_def)
  from single_pair_reduction [OF h1 h2, of "''ctx''"] show ?thesis
    unfolding ev using h1 h2 by auto
qed

lemmas run_defs = handle_notification_def notification_body_def notify_port_updated_def emit_def
  set_assoc_def pop_assoc_def dd_getitem_def Let_def

text \<open>
  C1, as stated, fails: after DELETED and then CREATED for the same association on the
  empty store, the latest event is CREATED and the id is in both the added and the deleted
  dict of its port.
\<close>

theorem delete_then_create_in_both:
  "fst (deliver ''ctx'' [(DELETED, [assoc1]), (CREATED, [assoc1])] ready_extension) = Inr ()
   \<and> last (effective_events [(DELETED, [assoc1]), (CREATED, [assoc1])]) = CREATED
   \<and> in_added (snd (deliver ''ctx'' [(DELETED, [assoc1]), (CREATED, [assoc1])] ready_extension))
        ''port-a'' ''lip-1''
   \<and> in_deleted (snd (deliver ''ctx'' [(DELETED, [assoc1]), (CREATED, [assoc1])] ready_extension))
        ''port-a'' ''lip-1''"
  by (simp add: run_defs ready_extension_def empty_store_def assoc1_def effective_events_def
      in_added_def in_deleted_def pending_def)

subsection \<open>The calls issued by a successful initialization\<close>

lemma pull_loop_fold:
  "local_ip_updates self = Some u \<Longrightarrow>
   pull_loop xs self =
     (Inr (), self\<lparr>local_ip_updates :=
        Some (u\<lparr>added := foldl (\<lambda>tbl a. set_assoc tbl (fixed_port_id a) (local_ip_id a) a) (added u) xs\<rparr>)\<rparr>)"
proof (induction xs arbitrary: self u)
  case Nil
  then show ?case by (cases self) simp
next
  case (Cons x xs)
  then show ?case by simp
qed

text \<open>
  With the OVS driver type \<^verbatim>\<open>initialize\<close> returns normally with the store
  filled, record by record, from what the bulk pull returned, and the calls it has issued
  are exactly three, in this order: the registration of the notification handler, the
  creation of the consumer, and the bulk pull. This is a statement about the sequential
  run of the method alone. The assignment of the store is not a call and leaves no mark
  in the trace, and the method handles no notification itself; when the transport starts
  to deliver notifications to the registered handler is settled outside this class and is
  not part of the model.
\<close>

lemma initialize_result:
  "initialize assoc_list conn EXTENSION_DRIVER_TYPE self =
     (Inr (),
      self\<lparr>resource_rpc := True,
           local_ip_updates :=
             Some \<lparr>added = foldl (\<lambda>tbl a. set_assoc tbl (fixed_port_id a) (local_ip_id a) a)
                             Map.empty assoc_list,
                   deleted = Map.empty\<rparr>,
           trace := trace self @ [RegistryRegister LOCAL_IP_ASSOCIATION,
                                  CreateConsumer conn LOCAL_IP_ASSOCIATION,
                                  BulkPull LOCAL_IP_ASSOCIATION]\<rparr>)"
  by (simp add: initialize_def register_rpc_consumers_def SUPPORTED_RESOURCE_TYPES_def
      pull_all_local_ip_associations_def emit_def pull_loop_fold Let_def)

text \<open>
  An instance on a fresh extension object: the registration call is issued before the
  bulk pull call, and no registration call follows the bulk pull call.
\<close>

lemma initialize_call_order:
  "fst (initialize [assoc1] ''conn'' EXTENSION_DRIVER_TYPE new_extension) = Inr ()
   \<and> occurs_before (RegistryRegister LOCAL_IP_ASSOCIATION) (BulkPull LOCAL_IP_ASSOCIATION)
        (trace (snd (initialize [assoc1] ''conn'' EXTENSION_DRIVER_TYPE new_extension)))
   \<and> \<not> occurs_before (BulkPull LOCAL_IP_ASSOCIATION) (RegistryRegister LOCAL_IP_ASSOCIATION)
        (trace (snd (initialize [assoc1] ''conn'' EXTENSION_DRIVER_TYPE new_extension)))"
  by (simp add: initialize_def register_rpc_consumers_def SUPPORTED_RESOURCE_TYPES_def
      pull_all_local_ip_associations_def emit_def new_extension_def Let_def)

end
